theory Spec2Isabelle
  imports Complex_Main "HOL-Library.AList"
begin

section \<open>Orders page: data model\<close>

text \<open>
  The embedding follows \<^verbatim>\<open>components/pages/Orders.tsx\<close>. JavaScript numbers that hold
  money (prices, discounts, totals, balances) are modelled as exact rationals, and
  quantities and stock levels as integers: the rounding of IEEE doubles is outside
  the model. A \<^verbatim>\<open>Record<string, number>\<close> is an association list whose order is the
  order of \<^verbatim>\<open>Object.entries\<close> (no property below depends on that order); a
  JavaScript \<^verbatim>\<open>Set<string>\<close> is a set of strings. Record fields keep the source's
  names; a name that several types share is prefixed with its type.
\<close>

datatype UserRole = Admin | Manager | Sales | Driver

datatype OrderStatus = Pending | Shipped | Delivered | Cancelled

record User =
  user_id :: string
  user_name :: string
  role :: UserRole

record Product =
  product_id :: string
  product_name :: string
  product_price :: rat
  stock :: int

text \<open>An order line. The discount is optional in the source (\<^verbatim>\<open>item.discount || 0\<close>).\<close>

record OrderItem =
  productId :: string
  quantity :: int
  price :: rat
  discount :: "rat option"

record AllocatedItem =
  alloc_productId :: string
  alloc_quantity :: int

record DriverAllocation =
  allocation_id :: string
  driverId :: string
  date :: string
  allocatedItems :: "AllocatedItem list"
  salesTotal :: "rat option"

record Customer =
  customer_id :: string
  customer_name :: string

text \<open>
  An order as the page holds it. \<^verbatim>\<open>backorderedItems\<close> may be missing
  (\<^verbatim>\<open>updatedOrder.backorderedItems || []\<close>), so it is optional, and so are the two
  fields the edit branch of \<^verbatim>\<open>handleSaveOrder\<close> reads under their column names
  (\<^verbatim>\<open>currentOrder.assigneduserid ?? ''\<close>, \<^verbatim>\<open>currentOrder.orderdate\<close>).
\<close>

record Order =
  order_id :: string
  customerId :: string
  status :: OrderStatus
  order_total :: rat
  orderItems :: "OrderItem list"
  backorderedItems :: "OrderItem list option"
  chequeBalance :: rat
  creditBalance :: rat
  assigneduserid :: "string option"
  orderdate :: "string option"

text \<open>
  What the handlers read from the data and authentication contexts: the signed-in
  user (\<^verbatim>\<open>currentUser\<close> may be null), the catalogue, the driver allocations, and
  today's date, the \<open>YYYY-MM-DD\<close> prefix of \<^verbatim>\<open>new Date().toISOString()\<close> that the
  stock lookup cuts off with \<^verbatim>\<open>split('T')[0]\<close> and finalization with
  \<^verbatim>\<open>slice(0, 10)\<close>.
\<close>

record env =
  currentUser :: "User option"
  products :: "Product list"
  driverAllocations :: "DriverAllocation list"
  todayStr :: string

section \<open>Stock resolver\<close>

text \<open>\<^verbatim>\<open>products.find(p => p.id === productId)\<close>\<close>

definition findProduct :: "env \<Rightarrow> string \<Rightarrow> Product option" where
  "findProduct e pid = find (\<lambda>p. product_id p = pid) (products e)"

definition isDriver :: "env \<Rightarrow> bool" where
  "isDriver e = (case currentUser e of None \<Rightarrow> False | Some u \<Rightarrow> role u = Driver)"

text \<open>The allocation of the signed-in driver for today, if any.\<close>

definition todaysAllocation :: "env \<Rightarrow> DriverAllocation option" where
  "todaysAllocation e =
     (case currentUser e of
        None \<Rightarrow> None
      | Some u \<Rightarrow>
          find (\<lambda>a. driverId a = user_id u \<and> date a = todayStr e) (driverAllocations e))"

definition getDriverAllocatedStock :: "env \<Rightarrow> string \<Rightarrow> int" where
  "getDriverAllocatedStock e pid =
     (if \<not> isDriver e then 0
      else (case todaysAllocation e of
              None \<Rightarrow> 0
            | Some a \<Rightarrow>
                (case find (\<lambda>i. alloc_productId i = pid) (allocatedItems a) of
                   None \<Rightarrow> 0
                 | Some i \<Rightarrow> alloc_quantity i)))"

definition getEffectiveStock :: "env \<Rightarrow> Product \<Rightarrow> int" where
  "getEffectiveStock e p =
     (if isDriver e then getDriverAllocatedStock e (product_id p) else stock p)"

section \<open>Order line aggregator\<close>

text \<open>
  The memoised \<^verbatim>\<open>{ total, inStockItems, heldItemsCount }\<close>: a \<^verbatim>\<open>reduce\<close> over
  \<^verbatim>\<open>Object.entries(orderItems)\<close>. The parameters are the page state
  \<^verbatim>\<open>orderItems\<close> (quantities), \<^verbatim>\<open>orderItemPrices\<close>, \<^verbatim>\<open>orderDiscounts\<close> and
  \<^verbatim>\<open>heldItems\<close>.
\<close>

record Totals =
  totalAmount :: rat
  inStockItems :: int
  heldItemsCount :: int

text \<open>\<^verbatim>\<open>orderItemPrices[productId] ?? product.price\<close>\<close>

definition priceOf :: "(string \<times> rat) list \<Rightarrow> Product \<Rightarrow> string \<Rightarrow> rat" where
  "priceOf prices product pid =
     (case map_of prices pid of None \<Rightarrow> product_price product | Some v \<Rightarrow> v)"

text \<open>\<^verbatim>\<open>orderDiscounts[productId] || 0\<close>\<close>

definition discountOf :: "(string \<times> rat) list \<Rightarrow> string \<Rightarrow> rat" where
  "discountOf discounts pid = (case map_of discounts pid of None \<Rightarrow> 0 | Some d \<Rightarrow> d)"

definition totalsStep ::
  "env \<Rightarrow> (string \<times> rat) list \<Rightarrow> (string \<times> rat) list \<Rightarrow> string set \<Rightarrow>
   Totals \<Rightarrow> string \<times> int \<Rightarrow> Totals" where
  "totalsStep e prices discounts held acc entry =
     (case entry of (pid, qty) \<Rightarrow>
        (case findProduct e pid of
           None \<Rightarrow> acc
         | Some product \<Rightarrow>
             if qty > 0 then
               (let isHeld = (pid \<in> held);
                    isOutOfStock = (getEffectiveStock e product = 0)
                in if isHeld \<or> isOutOfStock
                   then acc\<lparr>heldItemsCount := heldItemsCount acc + qty\<rparr>
                   else
                     (let p = priceOf prices product pid;
                          d = discountOf discounts pid;
                          discountedPrice = p * (1 - d / 100)
                      in acc\<lparr>totalAmount := totalAmount acc + discountedPrice * of_int qty,
                                    inStockItems := inStockItems acc + qty\<rparr>))
             else acc))"

definition orderTotals ::
  "env \<Rightarrow> (string \<times> int) list \<Rightarrow> (string \<times> rat) list \<Rightarrow> (string \<times> rat) list \<Rightarrow>
   string set \<Rightarrow> Totals" where
  "orderTotals e quantities prices discounts held =
     foldl (totalsStep e prices discounts held)
       \<lparr>totalAmount = 0, inStockItems = 0, heldItemsCount = 0\<rparr> quantities"

subsection \<open>The aggregator as the specification words it\<close>

text \<open>
  A line is active when its quantity is positive, its product is in the catalogue, its
  id is not in the held set and its effective stock is not 0; it is backordered when
  its quantity is positive and it is held or out of stock.
\<close>

definition lineActive :: "env \<Rightarrow> string set \<Rightarrow> string \<times> int \<Rightarrow> bool" where
  "lineActive e held entry =
     (case findProduct e (fst entry) of
        None \<Rightarrow> False
      | Some product \<Rightarrow>
          snd entry > 0 \<and> fst entry \<notin> held \<and> getEffectiveStock e product \<noteq> 0)"

definition lineHeld :: "env \<Rightarrow> string set \<Rightarrow> string \<times> int \<Rightarrow> bool" where
  "lineHeld e held entry =
     (case findProduct e (fst entry) of
        None \<Rightarrow> False
      | Some product \<Rightarrow>
          snd entry > 0 \<and> (fst entry \<in> held \<or> getEffectiveStock e product = 0))"

text \<open>\<open>price \<times> quantity \<times> (1 - discount / 100)\<close> for one line.\<close>

definition lineSubtotal ::
  "env \<Rightarrow> (string \<times> rat) list \<Rightarrow> (string \<times> rat) list \<Rightarrow> string \<times> int \<Rightarrow> rat" where
  "lineSubtotal e prices discounts entry =
     (case findProduct e (fst entry) of
        None \<Rightarrow> 0
      | Some product \<Rightarrow>
          priceOf prices product (fst entry) * of_int (snd entry)
            * (1 - discountOf discounts (fst entry) / 100))"

definition specTotals ::
  "env \<Rightarrow> (string \<times> int) list \<Rightarrow> (string \<times> rat) list \<Rightarrow> (string \<times> rat) list \<Rightarrow>
   string set \<Rightarrow> Totals" where
  "specTotals e quantities prices discounts held =
     \<lparr>totalAmount = sum_list (map (lineSubtotal e prices discounts)
                 (filter (lineActive e held) quantities)),
      inStockItems = sum_list (map snd (filter (lineActive e held) quantities)),
      heldItemsCount = sum_list (map snd (filter (lineHeld e held) quantities))\<rparr>"

text \<open>The scenario of the specification: one product P1 with stock 10, seen by a manager.\<close>

definition scenarioEnv :: env where
  "scenarioEnv =
     \<lparr>currentUser = Some \<lparr>user_id = ''U1'', user_name = ''Mia'', role = Manager\<rparr>,
      products = [\<lparr>product_id = ''P1'', product_name = ''Tea'', product_price = 100,
                   stock = 10\<rparr>],
      driverAllocations = [],
      todayStr = ''2025-01-01''\<rparr>"

section \<open>Quantity entry\<close>




text \<open>A catalogue whose only product is out of stock, seen by a manager.\<close>

definition outOfStockEnv :: env where
  "outOfStockEnv =
     \<lparr>currentUser = Some \<lparr>user_id = ''U1'', user_name = ''Mia'', role = Manager\<rparr>,
      products = [\<lparr>product_id = ''P1'', product_name = ''Tea'', product_price = 100,
                   stock = 0\<rparr>],
      driverAllocations = [],
      todayStr = ''2025-01-01''\<rparr>"

section \<open>Balance reconciler\<close>

text \<open>
  The three editable fields of the order view. Each is a number or the empty string
  (\<^verbatim>\<open>number | ''\<close>); \<open>None\<close> is the empty string.
\<close>

record Balances =
  editableChequeBalance :: "rat option"
  editableCreditBalance :: "rat option"
  editableAmountPaid :: "rat option"

text \<open>\<^verbatim>\<open>x === '' ? 0 : x\<close>\<close>

definition orZero :: "rat option \<Rightarrow> rat" where
  "orZero x = (case x of None \<Rightarrow> 0 | Some v \<Rightarrow> v)"

text \<open>
  The \<^verbatim>\<open>onChange\<close> handler of the cheque field. The event value of a number input is
  the empty string (\<open>None\<close>) or a numeral, which \<^verbatim>\<open>parseFloat(val) || 0\<close> reads as its
  value (\<open>Some v\<close>). The first parameter is \<^verbatim>\<open>viewingOrder.total\<close>.
\<close>

definition onChequeChange :: "rat \<Rightarrow> rat option \<Rightarrow> Balances \<Rightarrow> Balances" where
  "onChequeChange orderTotal val b =
     (case val of
        None \<Rightarrow>
          b\<lparr>editableChequeBalance := None,
            editableCreditBalance :=
              (case editableAmountPaid b of None \<Rightarrow> None | Some paid \<Rightarrow> Some (orderTotal - paid))\<rparr>
      | Some cheque \<Rightarrow>
          (let newCredit = orderTotal - orZero (editableAmountPaid b) - cheque
           in b\<lparr>editableChequeBalance := Some cheque,
                 editableCreditBalance := Some (if newCredit > 0 then newCredit else 0)\<rparr>))"

text \<open>The \<^verbatim>\<open>onChange\<close> handler of the amount-paid field.\<close>

definition onAmountPaidChange :: "rat \<Rightarrow> rat option \<Rightarrow> Balances \<Rightarrow> Balances" where
  "onAmountPaidChange orderTotal val b =
     (case val of
        None \<Rightarrow>
          b\<lparr>editableAmountPaid := None,
            editableCreditBalance :=
              (case editableChequeBalance b of
                 None \<Rightarrow> None | Some cheque \<Rightarrow> Some (orderTotal - cheque))\<rparr>
      | Some paid \<Rightarrow>
          (let newCredit = orderTotal - paid - orZero (editableChequeBalance b)
           in b\<lparr>editableAmountPaid := Some paid,
                 editableCreditBalance := Some (if newCredit > 0 then newCredit else 0)\<rparr>))"

text \<open>\<open>amountPaid + chequeBalance + creditBalance\<close> of the three fields.\<close>

definition balanceSum :: "Balances \<Rightarrow> rat" where
  "balanceSum b =
     orZero (editableAmountPaid b) + orZero (editableChequeBalance b)
       + orZero (editableCreditBalance b)"

section \<open>Hold and unhold in the order view\<close>

text \<open>
  What \<^verbatim>\<open>handleToggleHoldInView\<close> reads and writes of the page state: the order being
  viewed (\<^verbatim>\<open>viewingOrder\<close>, possibly null) and the local list of orders.
\<close>

record ViewState =
  viewingOrder :: "Order option"
  orders :: "Order list"

datatype HoldAction = Hold | Unhold

text \<open>\<^verbatim>\<open>Array.prototype.findIndex\<close>: the first index whose element passes, \<open>None\<close> for -1.\<close>

fun findIndex :: "('a \<Rightarrow> bool) \<Rightarrow> 'a list \<Rightarrow> nat option" where
  "findIndex P [] = None"
| "findIndex P (x # xs) = (if P x then Some 0 else map_option Suc (findIndex P xs))"

text \<open>\<^verbatim>\<open>xs.splice(i, 1)\<close>: the list without its element at index \<open>i\<close>.\<close>

definition splice1 :: "nat \<Rightarrow> 'a list \<Rightarrow> 'a list" where
  "splice1 i xs = take i xs @ drop (Suc i) xs"

text \<open>
  The \<^verbatim>\<open>reduce\<close> that recomputes the total from the active list:
  \<^verbatim>\<open>sum + item.price * item.quantity * (1 - (item.discount || 0) / 100)\<close>.
\<close>

definition itemSubtotal :: "OrderItem \<Rightarrow> rat" where
  "itemSubtotal item = price item * of_int (quantity item) * (1 - orZero (discount item) / 100)"

definition newTotal :: "OrderItem list \<Rightarrow> rat" where
  "newTotal items = foldl (\<lambda>sum item. sum + itemSubtotal item) 0 items"

text \<open>The tail of the handler: store the recomputed total, then both state updates.\<close>

definition commitOrder :: "Order \<Rightarrow> ViewState \<Rightarrow> ViewState" where
  "commitOrder updatedOrder st =
     (let u = updatedOrder\<lparr>order_total := newTotal (orderItems updatedOrder)\<rparr>
      in st\<lparr>viewingOrder := Some u,
            orders := map (\<lambda>ord. if order_id ord = order_id u then u else ord) (orders st)\<rparr>)"

text \<open>\<^verbatim>\<open>updatedOrder.backorderedItems || []\<close>\<close>

definition backordered :: "Order \<Rightarrow> OrderItem list" where
  "backordered ord = (case backorderedItems ord of None \<Rightarrow> [] | Some b \<Rightarrow> b)"

text \<open>
  \<^verbatim>\<open>handleToggleHoldInView\<close>. The deep copy \<^verbatim>\<open>JSON.parse(JSON.stringify(viewingOrder))\<close>
  is the order's value. Every early \<^verbatim>\<open>return\<close> gives the state back unchanged; the
  element read at \<^verbatim>\<open>itemIndex\<close> is read at an index that \<^verbatim>\<open>findIndex\<close> returned, so no
  branch reads out of range.
\<close>

definition handleToggleHoldInView ::
  "env \<Rightarrow> string \<Rightarrow> HoldAction \<Rightarrow> ViewState \<Rightarrow> ViewState" where
  "handleToggleHoldInView e pid action st =
     (case viewingOrder st of
        None \<Rightarrow> st
      | Some updatedOrder \<Rightarrow>
          (case action of
             Hold \<Rightarrow>
               (case findIndex (\<lambda>item. productId item = pid) (orderItems updatedOrder) of
                  None \<Rightarrow> st
                | Some itemIndex \<Rightarrow>
                    (let itemToMove = orderItems updatedOrder ! itemIndex
                     in commitOrder
                          (updatedOrder
                             \<lparr>orderItems := splice1 itemIndex (orderItems updatedOrder),
                              backorderedItems :=
                                Some (backordered updatedOrder @ [itemToMove])\<rparr>) st))
           | Unhold \<Rightarrow>
               (case findProduct e pid of
                  None \<Rightarrow> st
                | Some product \<Rightarrow>
                    if getEffectiveStock e product = 0 then st
                    else
                      (case findIndex (\<lambda>item. productId item = pid)
                              (backordered updatedOrder) of
                         None \<Rightarrow> st
                       | Some itemIndex \<Rightarrow>
                           (let itemToMove = backordered updatedOrder ! itemIndex
                            in commitOrder
                                 (updatedOrder
                                    \<lparr>backorderedItems :=
                                       Some (splice1 itemIndex (backordered updatedOrder)),
                                     orderItems := orderItems updatedOrder @ [itemToMove]\<rparr>)
                                 st)))))"

text \<open>The total of section 4.2 over an active list, as a sum.\<close>

definition activeTotal :: "OrderItem list \<Rightarrow> rat" where
  "activeTotal items =
     sum_list (map (\<lambda>item. price item * of_int (quantity item)
                      * (1 - orZero (discount item) / 100)) items)"

text \<open>
  An order of one line \<open>{P1, qty 5, price 100, discount 10}\<close> with the total its line
  gives, 450, and the view state that shows it.
\<close>

definition lineP1 :: OrderItem where
  "lineP1 = \<lparr>productId = ''P1'', quantity = 5, price = 100, discount = Some 10\<rparr>"

definition order450 :: Order where
  "order450 =
     \<lparr>order_id = ''ORD001'', customerId = ''C1'', status = Pending, order_total = 450,
      orderItems = [lineP1], backorderedItems = None, chequeBalance = 0,
      creditBalance = 0, assigneduserid = None, orderdate = None\<rparr>"

definition view450 :: ViewState where
  "view450 = \<lparr>viewingOrder = Some order450, orders = [order450]\<rparr>"

text \<open>The same order with a stored total of 999.\<close>

definition order999 :: Order where
  "order999 = order450\<lparr>order_total := 999\<rparr>"

definition view999 :: ViewState where
  "view999 = \<lparr>viewingOrder = Some order999, orders = [order999]\<rparr>"

section \<open>Finalization workflow\<close>

text \<open>
  The page state \<^verbatim>\<open>handleConfirmFinalize\<close> reads and updates: the data context, the
  viewed order and the order list, the order of the confirmation dialog and the print
  preview flag. The calls to the backend are recorded, in the order the handler
  issues them, as a list of writes; what the backend does with them, and the refetch
  that ends a finalization, belong to the backend and are not modelled.
\<close>

record PageState =
  ctx :: env
  view :: ViewState
  orderToFinalize :: "Order option"
  isPrintPreviewOpen :: bool

text \<open>
  \<open>OrderDelivered id sold\<close> is the update of an order row to status Delivered, with or
  without the \<^verbatim>\<open>sold\<close> column; \<open>AllocationUpdate id salesTotal items\<close> the update of a
  driver allocation; \<open>ProductStock id n\<close> sets a product's stock to \<open>n\<close>;
  \<open>CustomerTotals id totalSpent outstandingBalance\<close> updates a customer.
\<close>

datatype Write =
    OrderDelivered string "int option"
  | AllocationUpdate string rat "AllocatedItem list"
  | ProductStock string int
  | CustomerTotals string rat rat

datatype FinalizeError = EmptyOrderError | InsufficientStockError string

datatype Outcome = NoTarget | Aborted FinalizeError | Finalized

record FinalizeResult =
  outcome :: Outcome
  page :: PageState
  writes :: "Write list"

text \<open>
  The stock check: the \<^verbatim>\<open>for\<close> loop that stops at the first line whose product is
  missing or whose effective stock is below the quantity, and gives that line.
\<close>

fun firstInsufficient :: "env \<Rightarrow> OrderItem list \<Rightarrow> OrderItem option" where
  "firstInsufficient e [] = None"
| "firstInsufficient e (item # rest) =
     (case findProduct e (productId item) of
        None \<Rightarrow> Some item
      | Some product \<Rightarrow>
          if getEffectiveStock e product < quantity item then Some item
          else firstInsufficient e rest)"

text \<open>\<^verbatim>\<open>product?.name || 'an item'\<close>, the name in the alert.\<close>

definition alertName :: "env \<Rightarrow> OrderItem \<Rightarrow> string" where
  "alertName e item =
     (case findProduct e (productId item) of
        None \<Rightarrow> ''an item''
      | Some product \<Rightarrow> if product_name product = [] then ''an item'' else product_name product)"

text \<open>\<^verbatim>\<open>targetOrder.orderItems.reduce((sum, i) => sum + i.quantity, 0)\<close>\<close>

definition soldQty :: "OrderItem list \<Rightarrow> int" where
  "soldQty items = foldl (\<lambda>sum i. sum + quantity i) 0 items"

text \<open>The new list of allocated items: \<^verbatim>\<open>map\<close>, then \<^verbatim>\<open>filter(item => item.quantity > 0)\<close>.\<close>

definition updatedAllocatedItems :: "OrderItem list \<Rightarrow> AllocatedItem list \<Rightarrow> AllocatedItem list" where
  "updatedAllocatedItems deliveredItems allocated =
     filter (\<lambda>item. alloc_quantity item > 0)
       (map (\<lambda>item.
               (case find (\<lambda>di. productId di = alloc_productId item) deliveredItems of
                  Some delivered \<Rightarrow>
                    (let newQty = alloc_quantity item - quantity delivered
                     in item\<lparr>alloc_quantity := (if newQty > 0 then newQty else 0)\<rparr>)
                | None \<Rightarrow> item))
          allocated)"

text \<open>
  The allocation the driver branch updates: the signed-in user is a driver, there are
  allocations, and one of them is the driver's for today.
\<close>

definition allocationToUpdate :: "env \<Rightarrow> DriverAllocation option" where
  "allocationToUpdate e =
     (if isDriver e \<and> driverAllocations e \<noteq> [] then todaysAllocation e else None)"

text \<open>The stock deduction loop: one write per line whose warehouse stock covers it.\<close>

fun deductStock :: "env \<Rightarrow> OrderItem list \<Rightarrow> Write list" where
  "deductStock e [] = []"
| "deductStock e (item # rest) =
     (case findProduct e (productId item) of
        None \<Rightarrow> deductStock e rest
      | Some currentProduct \<Rightarrow>
          if stock currentProduct \<ge> quantity item
          then ProductStock (productId item) (stock currentProduct - quantity item)
                 # deductStock e rest
          else deductStock e rest)"

text \<open>
  The customer totals, from the delivered orders of the customer in the order list the
  handler closed over, with the finalized order added if it is not among them.
\<close>

definition customerTotals :: "Order list \<Rightarrow> Order \<Rightarrow> Write" where
  "customerTotals ords updatedOrder =
     (let delivered = filter (\<lambda>x. customerId x = customerId updatedOrder
                                 \<and> status x = Delivered) ords;
          customerOrders =
            (case find (\<lambda>x. order_id x = order_id updatedOrder) delivered of
               None \<Rightarrow> delivered @ [updatedOrder]
             | Some _ \<Rightarrow> delivered);
          totalSpent = foldl (\<lambda>sum x. sum + order_total x) 0 customerOrders;
          outstandingBalance =
            foldl (\<lambda>sum x. sum + (chequeBalance x + creditBalance x)) 0 customerOrders
      in CustomerTotals (customerId updatedOrder) totalSpent outstandingBalance)"

text \<open>The part of the handler after the two checks have passed.\<close>

definition deliver :: "PageState \<Rightarrow> Order option \<Rightarrow> Order \<Rightarrow> FinalizeResult" where
  "deliver st orderToProcess targetOrder =
     (let e = ctx st;
          sold = soldQty (orderItems targetOrder);
          allocationWrite =
            (case allocationToUpdate e of
               None \<Rightarrow> []
             | Some allocation \<Rightarrow>
                 [AllocationUpdate (allocation_id allocation)
                    (orZero (salesTotal allocation) + of_int sold)
                    (updatedAllocatedItems (orderItems targetOrder)
                       (allocatedItems allocation))]);
          newAllocations =
            (case allocationToUpdate e of
               None \<Rightarrow> driverAllocations e
             | Some allocation \<Rightarrow>
                 map (\<lambda>alloc.
                        if allocation_id alloc = allocation_id allocation
                        then alloc\<lparr>salesTotal :=
                                     Some (orZero (salesTotal allocation) + of_int sold),
                                   allocatedItems :=
                                     updatedAllocatedItems (orderItems targetOrder)
                                       (allocatedItems allocation)\<rparr>
                        else alloc)
                   (driverAllocations e));
          stockWrites =
            (if status targetOrder \<noteq> Delivered
             then deductStock e (orderItems targetOrder) else []);
          updatedOrder = targetOrder\<lparr>status := Delivered\<rparr>;
          newView =
            \<lparr>viewingOrder = Some updatedOrder,
             orders = map (\<lambda>x. if order_id x = order_id updatedOrder then updatedOrder else x)
                        (orders (view st))\<rparr>
      in \<lparr>outcome = Finalized,
          page = st\<lparr>ctx := e\<lparr>driverAllocations := newAllocations\<rparr>,
                    view := newView,
                    orderToFinalize :=
                      (if orderToProcess = None then None else orderToFinalize st),
                    isPrintPreviewOpen :=
                      (if orderToProcess = None then True else isPrintPreviewOpen st)\<rparr>,
          writes = [OrderDelivered (order_id targetOrder) (Some sold)]
                     @ allocationWrite @ stockWrites
                     @ [OrderDelivered (order_id updatedOrder) None,
                        customerTotals (orders (view st)) updatedOrder]\<rparr>)"

text \<open>
  \<^verbatim>\<open>handleConfirmFinalize(orderToProcess?)\<close>. The target is the argument or, without one,
  the order of the confirmation dialog. An abort closes the dialog when the call came
  from it and issues no write.
\<close>

definition abortFinalize :: "PageState \<Rightarrow> Order option \<Rightarrow> FinalizeError \<Rightarrow> FinalizeResult" where
  "abortFinalize st orderToProcess err =
     \<lparr>outcome = Aborted err,
      page = (if orderToProcess = None then st\<lparr>orderToFinalize := None\<rparr> else st),
      writes = []\<rparr>"

definition handleConfirmFinalize :: "PageState \<Rightarrow> Order option \<Rightarrow> FinalizeResult" where
  "handleConfirmFinalize st orderToProcess =
     (case (case orderToProcess of Some x \<Rightarrow> Some x | None \<Rightarrow> orderToFinalize st) of
        None \<Rightarrow> \<lparr>outcome = NoTarget, page = st, writes = []\<rparr>
      | Some targetOrder \<Rightarrow>
          if orderItems targetOrder = [] then abortFinalize st orderToProcess EmptyOrderError
          else
            (case firstInsufficient (ctx st) (orderItems targetOrder) of
               Some item \<Rightarrow>
                 abortFinalize st orderToProcess
                   (InsufficientStockError (alertName (ctx st) item))
             | None \<Rightarrow> deliver st orderToProcess targetOrder))"

text \<open>The writes to product stock, and to driver allocations, among a list of writes.\<close>

fun isProductStock :: "Write \<Rightarrow> bool" where
  "isProductStock (ProductStock _ _) = True"
| "isProductStock _ = False"

fun isAllocationUpdate :: "Write \<Rightarrow> bool" where
  "isAllocationUpdate (AllocationUpdate _ _ _) = True"
| "isAllocationUpdate _ = False"

text \<open>A line is covered when its product is in the catalogue with enough effective stock.\<close>

definition lineSufficient :: "env \<Rightarrow> OrderItem \<Rightarrow> bool" where
  "lineSufficient e item =
     (case findProduct e (productId item) of
        None \<Rightarrow> False
      | Some product \<Rightarrow> getEffectiveStock e product \<ge> quantity item)"

text \<open>The stock write of one line: the product's stock less the line's quantity.\<close>

definition lineDeduction :: "env \<Rightarrow> OrderItem \<Rightarrow> Write \<Rightarrow> bool" where
  "lineDeduction e item w =
     (case findProduct e (productId item) of
        None \<Rightarrow> False
      | Some product \<Rightarrow> w = ProductStock (productId item) (stock product - quantity item))"

text \<open>
  The allocation after a delivery, as the specification words it: an allocated entry
  whose product is among the delivered lines loses the delivered quantity, not below
  0, and only the entries with a positive quantity are kept.
\<close>

definition deliveredQuantity :: "OrderItem list \<Rightarrow> string \<Rightarrow> int option" where
  "deliveredQuantity deliveredItems pid =
     map_of (map (\<lambda>di. (productId di, quantity di)) deliveredItems) pid"

fun specAllocatedItems :: "OrderItem list \<Rightarrow> AllocatedItem list \<Rightarrow> AllocatedItem list" where
  "specAllocatedItems deliveredItems [] = []"
| "specAllocatedItems deliveredItems (entry # rest) =
     (let q = (case deliveredQuantity deliveredItems (alloc_productId entry) of
                 None \<Rightarrow> alloc_quantity entry
               | Some dq \<Rightarrow> max 0 (alloc_quantity entry - dq))
      in if q > 0 then entry\<lparr>alloc_quantity := q\<rparr> # specAllocatedItems deliveredItems rest
         else specAllocatedItems deliveredItems rest)"

text \<open>
  Pages for the scenarios: the order of one line \<open>{P1, qty 5}\<close> is viewed by a manager
  with stock 3 (too little) and with stock 10, and by a driver whose allocation for
  today holds 5 of P1 and 4 of P2.
\<close>

definition lowStockPage :: PageState where
  "lowStockPage =
     \<lparr>ctx = scenarioEnv\<lparr>products :=
              [\<lparr>product_id = ''P1'', product_name = ''Tea'', product_price = 100,
                stock = 3\<rparr>]\<rparr>,
      view = view450, orderToFinalize = None, isPrintPreviewOpen = False\<rparr>"

definition stockedPage :: PageState where
  "stockedPage =
     \<lparr>ctx = scenarioEnv, view = view450, orderToFinalize = None,
      isPrintPreviewOpen = False\<rparr>"

definition driverAllocation :: DriverAllocation where
  "driverAllocation =
     \<lparr>allocation_id = ''A1'', driverId = ''U2'', date = ''2025-01-01'',
      allocatedItems = [\<lparr>alloc_productId = ''P1'', alloc_quantity = 5\<rparr>,
                        \<lparr>alloc_productId = ''P2'', alloc_quantity = 4\<rparr>],
      salesTotal = Some 7\<rparr>"

definition driverPage :: PageState where
  "driverPage =
     \<lparr>ctx = scenarioEnv
              \<lparr>currentUser := Some \<lparr>user_id = ''U2'', user_name = ''Dan'', role = Driver\<rparr>,
               driverAllocations := [driverAllocation]\<rparr>,
      view = view450, orderToFinalize = None, isPrintPreviewOpen = False\<rparr>"

text \<open>
  A line is covered by the warehouse when its product is in the catalogue and the
  product's warehouse stock is at least the line's quantity.
\<close>

definition warehouseCovers :: "env \<Rightarrow> OrderItem \<Rightarrow> bool" where
  "warehouseCovers e item =
     (case findProduct e (productId item) of
        None \<Rightarrow> False
      | Some product \<Rightarrow> stock product \<ge> quantity item)"

text \<open>
  A driver whose allocation for today holds 7 of P1 while the warehouse holds 2, viewing
  the order of 5 of P1.
\<close>

definition shortWarehousePage :: PageState where
  "shortWarehousePage =
     \<lparr>ctx = \<lparr>currentUser = Some \<lparr>user_id = ''U2'', user_name = ''Dan'', role = Driver\<rparr>,
             products = [\<lparr>product_id = ''P1'', product_name = ''Tea'',
                          product_price = 100, stock = 2\<rparr>],
             driverAllocations =
               [\<lparr>allocation_id = ''A1'', driverId = ''U2'', date = ''2025-01-01'',
                 allocatedItems = [\<lparr>alloc_productId = ''P1'', alloc_quantity = 7\<rparr>],
                 salesTotal = Some 0\<rparr>],
             todayStr = ''2025-01-01''\<rparr>,
      view = view450, orderToFinalize = None, isPrintPreviewOpen = False\<rparr>"

section \<open>Saving an order\<close>

datatype ModalState = Closed | Create | Edit

text \<open>
  The form state \<^verbatim>\<open>handleSaveOrder\<close> reads. \<open>orderItemQuantities\<close> is the page state
  \<^verbatim>\<open>orderItems\<close>, the record from product id to quantity.
\<close>

record OrderForm =
  modalState :: ModalState
  currentOrder :: "Order option"
  selectedCustomer :: string
  orderItemQuantities :: "(string \<times> int) list"
  orderItemPrices :: "(string \<times> rat) list"
  orderDiscounts :: "(string \<times> rat) list"
  heldItems :: "string set"
  orderMethod :: string
  orderNotes :: string
  expectedDeliveryDate :: string

text \<open>The row sent to the \<^verbatim>\<open>orders\<close> table; the two item lists stand for their JSON text.\<close>

record OrderRow =
  customerid :: string
  customername :: string
  row_assigneduserid :: string
  orderitems :: "OrderItem list"
  backordereditems :: "OrderItem list"
  row_method :: string
  expecteddeliverydate :: "string option"
  row_orderdate :: string
  totalamount :: rat
  row_status :: OrderStatus
  row_notes :: string
  chequebalance :: rat
  creditbalance :: rat

text \<open>
  What a call of \<^verbatim>\<open>handleSaveOrder\<close> comes to: an alert and return, a return without a
  message, the insert of a new row under a new id, the update of the row of an existing
  order, or only closing the modal.
\<close>

datatype SaveOutcome =
    SaveAlert string
  | SaveReturn
  | InsertOrder string OrderRow
  | UpdateOrder string OrderRow
  | CloseModal

text \<open>
  One step of the \<^verbatim>\<open>forEach\<close> over the entries with a positive quantity: the line is
  pushed to \<^verbatim>\<open>newBackorderedItems\<close> (second list, without a discount) or to
  \<^verbatim>\<open>newOrderItems\<close> (first list).
\<close>

definition saveStep ::
  "env \<Rightarrow> (string \<times> rat) list \<Rightarrow> (string \<times> rat) list \<Rightarrow> string set \<Rightarrow>
   OrderItem list \<times> OrderItem list \<Rightarrow> string \<times> int \<Rightarrow> OrderItem list \<times> OrderItem list" where
  "saveStep e prices discounts held acc entry =
     (case entry of (pid, qty) \<Rightarrow>
        (case findProduct e pid of
           None \<Rightarrow> acc
         | Some product \<Rightarrow>
             (let isHeld = (pid \<in> held);
                  isOutOfStock = (getEffectiveStock e product = 0);
                  p = priceOf prices product pid
              in if isHeld \<or> isOutOfStock
                 then (fst acc,
                       snd acc @ [\<lparr>productId = pid, quantity = qty, price = p,
                                   discount = None\<rparr>])
                 else (fst acc @ [\<lparr>productId = pid, quantity = qty, price = p,
                                   discount = Some (discountOf discounts pid)\<rparr>],
                       snd acc))))"

definition saveLists ::
  "env \<Rightarrow> (string \<times> int) list \<Rightarrow> (string \<times> rat) list \<Rightarrow> (string \<times> rat) list \<Rightarrow>
   string set \<Rightarrow> OrderItem list \<times> OrderItem list" where
  "saveLists e quantities prices discounts held =
     foldl (saveStep e prices discounts held) ([], [])
       (filter (\<lambda>entry. snd entry > 0) quantities)"

text \<open>\<^verbatim>\<open>expectedDeliveryDate || x\<close>: the empty string is falsy.\<close>

definition orElse :: "string \<Rightarrow> string \<Rightarrow> string" where
  "orElse s x = (if s = [] then x else s)"

text \<open>
  \<^verbatim>\<open>handleSaveOrder\<close>, up to the request it sends. The id of a new order is computed from
  the ids of the existing orders; it is the parameter \<open>newId\<close> here. What follows the
  request (the refetch, the notification, closing the modal) is not modelled.
\<close>

definition handleSaveOrder ::
  "env \<Rightarrow> Customer list \<Rightarrow> OrderForm \<Rightarrow> string \<Rightarrow> SaveOutcome" where
  "handleSaveOrder e customers form newId =
     (let t = orderTotals e (orderItemQuantities form) (orderItemPrices form)
                (orderDiscounts form) (heldItems form)
      in if selectedCustomer form = [] \<or> (inStockItems t = 0 \<and> heldItemsCount t = 0)
         then SaveAlert ''Please select a customer and add at least one item.''
         else
           (case find (\<lambda>c. customer_id c = selectedCustomer form) customers of
              None \<Rightarrow> SaveReturn
            | Some customer \<Rightarrow>
                (let lists = saveLists e (orderItemQuantities form) (orderItemPrices form)
                               (orderDiscounts form) (heldItems form);
                     newOrderItems = fst lists;
                     newBackorderedItems = snd lists
                 in case modalState form of
                      Create \<Rightarrow>
                        if customer_id customer = [] then SaveAlert ''Please select a customer''
                        else if newOrderItems = []
                        then SaveAlert ''Please add at least one item to the order''
                        else InsertOrder newId
                          \<lparr>customerid = customer_id customer,
                           customername = customer_name customer,
                           row_assigneduserid =
                             (case currentUser e of None \<Rightarrow> [] | Some u \<Rightarrow> user_id u),
                           orderitems = newOrderItems,
                           backordereditems = newBackorderedItems,
                           row_method = orderMethod form,
                           expecteddeliverydate =
                             (if expectedDeliveryDate form = [] then None
                              else Some (expectedDeliveryDate form)),
                           row_orderdate = orElse (expectedDeliveryDate form) (todayStr e),
                           totalamount = totalAmount t,
                           row_status = Pending,
                           row_notes = orderNotes form,
                           chequebalance = 0,
                           creditbalance = 0\<rparr>
                    | Edit \<Rightarrow>
                        (case currentOrder form of
                           None \<Rightarrow> CloseModal
                         | Some cur \<Rightarrow>
                             UpdateOrder (order_id cur)
                               \<lparr>customerid = customer_id customer,
                                customername = customer_name customer,
                                row_assigneduserid =
                                  (case assigneduserid cur of None \<Rightarrow> [] | Some u \<Rightarrow> u),
                                orderitems = newOrderItems,
                                backordereditems = newBackorderedItems,
                                row_method = orderMethod form,
                                expecteddeliverydate =
                                  (if expectedDeliveryDate form = [] then None
                                   else Some (expectedDeliveryDate form)),
                                row_orderdate =
                                  orElse (expectedDeliveryDate form)
                                    (orElse (case orderdate cur of None \<Rightarrow> [] | Some d \<Rightarrow> d)
                                       (todayStr e)),
                                totalamount = totalAmount t,
                                row_status = status cur,
                                row_notes = orderNotes form,
                                chequebalance = chequeBalance cur,
                                creditbalance = creditBalance cur\<rparr>)
                    | Closed \<Rightarrow> CloseModal)))"

text \<open>A new order for customer C1 whose only line, 5 of P1, is out of stock.\<close>

definition backorderForm :: OrderForm where
  "backorderForm =
     \<lparr>modalState = Create, currentOrder = None, selectedCustomer = ''C1'',
      orderItemQuantities = [(''P1'', 5)], orderItemPrices = [(''P1'', 100)],
      orderDiscounts = [], heldItems = {}, orderMethod = '''', orderNotes = '''',
      expectedDeliveryDate = ''''\<rparr>"

section \<open>Aggregator: proofs\<close>

lemma totalsStep_foldl:
  "foldl (totalsStep e prices discounts held) acc quantities =
     \<lparr>totalAmount = totalAmount acc + sum_list (map (lineSubtotal e prices discounts)
                 (filter (lineActive e held) quantities)),
      inStockItems = inStockItems acc
         + sum_list (map snd (filter (lineActive e held) quantities)),
      heldItemsCount = heldItemsCount acc
         + sum_list (map snd (filter (lineHeld e held) quantities))\<rparr>"
proof (induction quantities arbitrary: acc)
  case Nil
  show ?case by simp
next
  case (Cons entry rest)
  obtain pid qty where entry: "entry = (pid, qty)" by (cases entry)
  show ?case
  proof (cases "findProduct e pid")
    case None
    have "\<not> lineActive e held (pid, qty)" "\<not> lineHeld e held (pid, qty)"
      by (simp_all add: lineActive_def lineHeld_def None)
    moreover have "totalsStep e prices discounts held acc (pid, qty) = acc"
      by (simp add: totalsStep_def None)
    ultimately show ?thesis
      unfolding foldl_Cons Cons.IH by (simp add: entry)
  next
    case (Some product)
    have act: "lineActive e held (pid, qty)
                 = (qty > 0 \<and> pid \<notin> held \<and> getEffectiveStock e product \<noteq> 0)"
      and hld: "lineHeld e held (pid, qty)
                 = (qty > 0 \<and> (pid \<in> held \<or> getEffectiveStock e product = 0))"
      and sub: "lineSubtotal e prices discounts (pid, qty)
                 = priceOf prices product pid * of_int qty
                     * (1 - discountOf discounts pid / 100)"
      by (simp_all add: lineActive_def lineHeld_def lineSubtotal_def Some)
    show ?thesis
      unfolding foldl_Cons Cons.IH
      by (simp add: entry act hld sub totalsStep_def Some Let_def algebra_simps)
  qed
qed

text \<open>
  C1. For every quantities, prices, discounts and held-set input, the aggregator's
  total is the sum of \<open>price \<times> quantity \<times> (1 - discount / 100)\<close> over the lines with
  positive quantity that are neither held nor out of stock, its in-stock count is the
  sum of their quantities, and the lines with positive quantity that are held or out
  of stock add their quantity to the held count only. The single line
  \<open>{qty 5, price 100, discount 10}\<close> with stock 10 gives total 450, 5 in-stock items
  and 0 held items.
\<close>

theorem orderTotals_spec:
  "orderTotals e quantities prices discounts held
     = specTotals e quantities prices discounts held
   \<and> orderTotals scenarioEnv [(''P1'', 5)] [(''P1'', 100)] [(''P1'', 10)] {}
     = \<lparr>totalAmount = 450, inStockItems = 5, heldItemsCount = 0\<rparr>"
proof
  show "orderTotals e quantities prices discounts held
          = specTotals e quantities prices discounts held"
    by (simp add: orderTotals_def specTotals_def totalsStep_foldl)
  show "orderTotals scenarioEnv [(''P1'', 5)] [(''P1'', 100)] [(''P1'', 10)] {}
          = \<lparr>totalAmount = 450, inStockItems = 5, heldItemsCount = 0\<rparr>"
    by (simp add: orderTotals_def totalsStep_def scenarioEnv_def findProduct_def
          getEffectiveStock_def isDriver_def priceOf_def discountOf_def Let_def)
qed


theorem orderTotals_spec_witness:
  "orderTotals outOfStockEnv [(''P1'', 5), (''P9'', 2), (''P1'', 0)] [] [] {}
     = \<lparr>totalAmount = 0, inStockItems = 0, heldItemsCount = 5\<rparr>"
proof -
  have "specTotals outOfStockEnv [(''P1'', 5), (''P9'', 2), (''P1'', 0)] [] [] {}
          = \<lparr>totalAmount = 0, inStockItems = 0, heldItemsCount = 5\<rparr>"
    by (simp add: specTotals_def lineActive_def lineHeld_def lineSubtotal_def
          outOfStockEnv_def findProduct_def getEffectiveStock_def isDriver_def)
  with orderTotals_spec [of outOfStockEnv "[(''P1'', 5), (''P9'', 2), (''P1'', 0)]" "[]" "[]" "{}"]
  show ?thesis by simp
qed

section \<open>Balance reconciler: proofs\<close>

text \<open>
  C4. For every order total and every edit value, editing the cheque-balance field
  sets the credit balance to \<open>max(0, total - amountPaid - chequeBalance)\<close>, and editing
  the amount-paid field sets it to \<open>max(0, total - chequeBalance - amountPaid)\<close> (a
  blank other field counts as 0). With total 1000 and amount paid 200, setting the
  cheque balance to 300 gives credit balance 500.
\<close>

theorem credit_recomputed:
  "editableCreditBalance (onChequeChange orderTotal (Some cheque) b)
     = Some (max 0 (orderTotal - orZero (editableAmountPaid b) - cheque))
   \<and> editableChequeBalance (onChequeChange orderTotal (Some cheque) b) = Some cheque
   \<and> editableAmountPaid (onChequeChange orderTotal (Some cheque) b) = editableAmountPaid b
   \<and> editableCreditBalance (onAmountPaidChange orderTotal (Some paid) b)
     = Some (max 0 (orderTotal - orZero (editableChequeBalance b) - paid))
   \<and> editableAmountPaid (onAmountPaidChange orderTotal (Some paid) b) = Some paid
   \<and> editableChequeBalance (onAmountPaidChange orderTotal (Some paid) b)
     = editableChequeBalance b
   \<and> editableCreditBalance
       (onChequeChange 1000 (Some 300)
          \<lparr>editableChequeBalance = Some 0, editableCreditBalance = Some 800,
           editableAmountPaid = Some 200\<rparr>) = Some 500"
  by (simp add: onChequeChange_def onAmountPaidChange_def orZero_def Let_def max_def)

theorem credit_recomputed_witness:
  "editableCreditBalance
     (onAmountPaidChange 1000 (Some 250)
        \<lparr>editableChequeBalance = Some 300, editableCreditBalance = Some 500,
         editableAmountPaid = Some 200\<rparr>) = Some 450"
  using credit_recomputed [of 1000 0
      "\<lparr>editableChequeBalance = Some 300, editableCreditBalance = Some 500,
        editableAmountPaid = Some 200\<rparr>" 250]
  by (simp add: orZero_def)

text \<open>
  C5 as stated fails: with total 1000 and amount paid 800, entering a cheque balance of
  300 gives credit balance 0, and the three fields add up to 1100.
\<close>

theorem balance_identity_counterexample:
  "balanceSum
     (onChequeChange 1000 (Some 300)
        \<lparr>editableChequeBalance = Some 0, editableCreditBalance = Some 200,
         editableAmountPaid = Some 800\<rparr>) = 1100
   \<and> balanceSum
     (onChequeChange 1000 (Some 300)
        \<lparr>editableChequeBalance = Some 0, editableCreditBalance = Some 200,
         editableAmountPaid = Some 800\<rparr>) \<noteq> 1000"
  by (simp add: balanceSum_def onChequeChange_def orZero_def Let_def)

text \<open>
  C5, amended. After an edit of the cheque-balance or amount-paid field to a number:
  if the amount paid and the cheque balance together do not exceed the order total,
  then amount paid + cheque balance + credit balance equals the order total; if they
  exceed it, the credit balance is 0 and the three fields add up to amount paid +
  cheque balance.
\<close>

theorem balance_identity_amended:
  "(orZero (editableAmountPaid b) + cheque \<le> orderTotal \<longrightarrow>
      balanceSum (onChequeChange orderTotal (Some cheque) b) = orderTotal)
   \<and> (orZero (editableAmountPaid b) + cheque > orderTotal \<longrightarrow>
      editableCreditBalance (onChequeChange orderTotal (Some cheque) b) = Some 0
      \<and> balanceSum (onChequeChange orderTotal (Some cheque) b)
          = orZero (editableAmountPaid b) + cheque)
   \<and> (paid + orZero (editableChequeBalance b) \<le> orderTotal \<longrightarrow>
      balanceSum (onAmountPaidChange orderTotal (Some paid) b) = orderTotal)
   \<and> (paid + orZero (editableChequeBalance b) > orderTotal \<longrightarrow>
      editableCreditBalance (onAmountPaidChange orderTotal (Some paid) b) = Some 0
      \<and> balanceSum (onAmountPaidChange orderTotal (Some paid) b)
          = paid + orZero (editableChequeBalance b))"
  by (simp add: balanceSum_def onChequeChange_def onAmountPaidChange_def orZero_def Let_def)

theorem balance_identity_amended_witness:
  "balanceSum
     (onChequeChange 1000 (Some 300)
        \<lparr>editableChequeBalance = Some 0, editableCreditBalance = Some 800,
         editableAmountPaid = Some 200\<rparr>) = 1000
   \<and> balanceSum
     (onChequeChange 1000 (Some 300)
        \<lparr>editableChequeBalance = Some 0, editableCreditBalance = Some 200,
         editableAmountPaid = Some 800\<rparr>) = 1100
   \<and> balanceSum
     (onAmountPaidChange 1000 (Some 200)
        \<lparr>editableChequeBalance = Some 300, editableCreditBalance = Some 700,
         editableAmountPaid = Some 0\<rparr>) = 1000
   \<and> balanceSum
     (onAmountPaidChange 1000 (Some 800)
        \<lparr>editableChequeBalance = Some 300, editableCreditBalance = Some 700,
         editableAmountPaid = Some 0\<rparr>) = 1100"
  using
    balance_identity_amended [of
      "\<lparr>editableChequeBalance = Some 0, editableCreditBalance = Some 800,
        editableAmountPaid = Some 200\<rparr>" 300 1000 200]
    balance_identity_amended [of
      "\<lparr>editableChequeBalance = Some 0, editableCreditBalance = Some 200,
        editableAmountPaid = Some 800\<rparr>" 300 1000 800]
    balance_identity_amended [of
      "\<lparr>editableChequeBalance = Some 300, editableCreditBalance = Some 700,
        editableAmountPaid = Some 0\<rparr>" 0 1000 200]
    balance_identity_amended [of
      "\<lparr>editableChequeBalance = Some 300, editableCreditBalance = Some 700,
        editableAmountPaid = Some 0\<rparr>" 0 1000 800]
  by (simp add: orZero_def)

section \<open>Quantity entry: proofs\<close>









section \<open>Hold and unhold: proofs\<close>

lemma findIndex_None: "findIndex P xs = None \<longleftrightarrow> (\<forall>x \<in> set xs. \<not> P x)"
  by (induction xs) auto

lemma findIndex_Some:
  "findIndex P xs = Some i \<Longrightarrow> i < length xs \<and> P (xs ! i) \<and> (\<forall>j < i. \<not> P (xs ! j))"
proof (induction xs arbitrary: i)
  case Nil
  then show ?case by simp
next
  case (Cons x xs)
  show ?case
  proof (cases "P x")
    case True
    with Cons.prems show ?thesis by simp
  next
    case False
    with Cons.prems obtain k where k: "findIndex P xs = Some k" "i = Suc k"
      by auto
    from Cons.IH [OF k(1)] False k(2) show ?thesis
      by (auto simp: nth_Cons split: nat.splits)
  qed
qed

lemma findIndex_snoc:
  "\<forall>x \<in> set xs. \<not> P x \<Longrightarrow> P y \<Longrightarrow> findIndex P (xs @ [y]) = Some (length xs)"
  by (induction xs) auto

lemma splice1_snoc: "splice1 (length xs) (xs @ [y]) = xs"
  by (simp add: splice1_def)

lemma newTotal_foldl:
  "foldl (\<lambda>sum item. sum + itemSubtotal item) a items
     = a + sum_list (map itemSubtotal items)"
  by (induction items arbitrary: a) (simp_all add: algebra_simps)

lemma newTotal_activeTotal: "newTotal items = activeTotal items"
proof -
  have "itemSubtotal = (\<lambda>item. price item * of_int (quantity item)
                          * (1 - orZero (discount item) / 100))"
    by (rule ext) (simp add: itemSubtotal_def)
  then show ?thesis
    by (simp add: newTotal_def activeTotal_def newTotal_foldl)
qed

lemma activeTotal_append: "activeTotal (xs @ ys) = activeTotal xs + activeTotal ys"
  by (simp add: activeTotal_def)

lemma activeTotal_moved:
  assumes "i < length xs"
  shows "activeTotal (splice1 i xs @ [xs ! i]) = activeTotal xs"
proof -
  have "xs = take i xs @ [xs ! i] @ drop (Suc i) xs"
    using assms by (simp add: id_take_nth_drop)
  then have "activeTotal xs
               = activeTotal (take i xs) + activeTotal [xs ! i] + activeTotal (drop (Suc i) xs)"
    by (metis activeTotal_append add.assoc)
  then show ?thesis
    by (simp add: splice1_def activeTotal_append)
qed

text \<open>The state after a valid hold, and after a valid unhold.\<close>

lemma hold_valid:
  assumes "viewingOrder st = Some vo"
    and "findIndex (\<lambda>item. productId item = pid) (orderItems vo) = Some i"
  shows "handleToggleHoldInView e pid Hold st
           = commitOrder (vo\<lparr>orderItems := splice1 i (orderItems vo),
                             backorderedItems := Some (backordered vo @ [orderItems vo ! i])\<rparr>)
               st"
  using assms by (simp add: handleToggleHoldInView_def Let_def)

lemma unhold_valid:
  assumes "viewingOrder st = Some vo"
    and "findProduct e pid = Some product"
    and "getEffectiveStock e product \<noteq> 0"
    and "findIndex (\<lambda>item. productId item = pid) (backordered vo) = Some i"
  shows "handleToggleHoldInView e pid Unhold st
           = commitOrder (vo\<lparr>backorderedItems := Some (splice1 i (backordered vo)),
                             orderItems := orderItems vo @ [backordered vo ! i]\<rparr>)
               st"
  using assms by (simp add: handleToggleHoldInView_def Let_def)

lemma viewingOrder_commitOrder:
  "viewingOrder (commitOrder u st) = Some (u\<lparr>order_total := newTotal (orderItems u)\<rparr>)"
  by (simp add: commitOrder_def Let_def)

text \<open>
  C7. For every order being viewed and every product id, an invalid transition is a
  no-op: a hold of an id that is not in the active list, an unhold of an id that is not
  in the backordered list, and an unhold of a product whose effective stock is 0 each
  give back the page state as it was, so the order's item lists and total are
  unchanged. The handler is a total function with no failing branch: it does not throw.
\<close>

theorem invalid_toggle_noop:
  assumes "viewingOrder st = Some vo"
    and "(action = Hold \<and> pid \<notin> productId ` set (orderItems vo))
       \<or> (action = Unhold \<and> pid \<notin> productId ` set (backordered vo))
       \<or> (action = Unhold \<and> findProduct e pid = Some product
            \<and> getEffectiveStock e product = 0)"
  shows "handleToggleHoldInView e pid action st = st"
proof -
  consider (hold) "action = Hold" "pid \<notin> productId ` set (orderItems vo)"
    | (absent) "action = Unhold" "pid \<notin> productId ` set (backordered vo)"
    | (nostock) "action = Unhold" "findProduct e pid = Some product"
        "getEffectiveStock e product = 0"
    using assms(2) by blast
  then show ?thesis
  proof cases
    case hold
    from hold(2) have "findIndex (\<lambda>item. productId item = pid) (orderItems vo) = None"
      by (auto simp: findIndex_None)
    with hold(1) assms(1) show ?thesis
      by (simp add: handleToggleHoldInView_def)
  next
    case absent
    from absent(2) have "findIndex (\<lambda>item. productId item = pid) (backordered vo) = None"
      by (auto simp: findIndex_None)
    with absent(1) assms(1) show ?thesis
      by (simp add: handleToggleHoldInView_def split: option.splits)
  next
    case nostock
    with assms(1) show ?thesis
      by (simp add: handleToggleHoldInView_def)
  qed
qed

theorem invalid_toggle_noop_witness:
  "handleToggleHoldInView scenarioEnv ''P2'' Hold view450 = view450
   \<and> handleToggleHoldInView scenarioEnv ''P1'' Unhold view450 = view450
   \<and> handleToggleHoldInView outOfStockEnv ''P1'' Unhold view450 = view450"
proof -
  have v: "viewingOrder view450 = Some order450"
    by (simp add: view450_def)
  have a: "''P2'' \<notin> productId ` set (orderItems order450)"
    by (simp add: order450_def lineP1_def)
  have b: "''P1'' \<notin> productId ` set (backordered order450)"
    by (simp add: order450_def backordered_def)
  have c: "findProduct outOfStockEnv ''P1''
             = Some \<lparr>product_id = ''P1'', product_name = ''Tea'', product_price = 100,
                     stock = 0\<rparr>"
    "getEffectiveStock outOfStockEnv
       \<lparr>product_id = ''P1'', product_name = ''Tea'', product_price = 100, stock = 0\<rparr> = 0"
    by (simp_all add: outOfStockEnv_def findProduct_def getEffectiveStock_def isDriver_def)
  show ?thesis
    using invalid_toggle_noop [OF v, of Hold "''P2''" scenarioEnv] a
      invalid_toggle_noop [OF v, of Unhold "''P1''" scenarioEnv] b
      invalid_toggle_noop [OF v, of Unhold "''P1''" outOfStockEnv] c
    by simp
qed



text \<open>
  C8 as stated fails: the total after hold then unhold is the sum over the active
  list, whatever the total was before. The order of one line
  \<open>{P1, qty 5, price 100, discount 10}\<close> with stored total 999 and stock 10 comes back
  with total 450.
\<close>

theorem hold_unhold_total_counterexample:
  "map_option order_total (viewingOrder view999) = Some 999
   \<and> map_option orderItems (viewingOrder view999) = Some [lineP1]
   \<and> map_option order_total
       (viewingOrder
          (handleToggleHoldInView scenarioEnv ''P1'' Unhold
             (handleToggleHoldInView scenarioEnv ''P1'' Hold view999))) = Some 450
   \<and> map_option order_total
       (viewingOrder
          (handleToggleHoldInView scenarioEnv ''P1'' Unhold
             (handleToggleHoldInView scenarioEnv ''P1'' Hold view999)))
       \<noteq> map_option order_total (viewingOrder view999)
   \<and> map_option orderItems
       (viewingOrder
          (handleToggleHoldInView scenarioEnv ''P1'' Unhold
             (handleToggleHoldInView scenarioEnv ''P1'' Hold view999))) = Some [lineP1]"
  by (simp add: handleToggleHoldInView_def commitOrder_def view999_def order999_def
        order450_def
        lineP1_def backordered_def splice1_def newTotal_def itemSubtotal_def orZero_def
        scenarioEnv_def findProduct_def getEffectiveStock_def isDriver_def Let_def)

text \<open>
  C8, amended. For every viewed order whose backordered list does not hold the product
  id, and every product id present in its active list with effective stock above 0:
  hold moves the first active line of that id to the end of the backordered list, and
  unhold moves it back, to the end of the active list, with the same quantity, price
  and discount, leaving the backordered list as it was. After each of the two
  transitions the total equals the section 4.2 sum over the then-current active list,
  so after the round trip it is the sum over the original active list: it is the
  total before the hold whenever that total was equal to this sum.
\<close>

theorem hold_unhold_roundtrip:
  assumes "viewingOrder st = Some vo"
    and "findIndex (\<lambda>item. productId item = pid) (orderItems vo) = Some i"
    and "pid \<notin> productId ` set (backordered vo)"
    and "findProduct e pid = Some product"
    and "getEffectiveStock e product > 0"
  shows "(let st1 = handleToggleHoldInView e pid Hold st;
              st2 = handleToggleHoldInView e pid Unhold st1
          in map_option orderItems (viewingOrder st1) = Some (splice1 i (orderItems vo))
           \<and> map_option backordered (viewingOrder st1)
               = Some (backordered vo @ [orderItems vo ! i])
           \<and> map_option order_total (viewingOrder st1)
               = Some (activeTotal (splice1 i (orderItems vo)))
           \<and> map_option orderItems (viewingOrder st2)
               = Some (splice1 i (orderItems vo) @ [orderItems vo ! i])
           \<and> map_option backordered (viewingOrder st2) = Some (backordered vo)
           \<and> map_option order_total (viewingOrder st2)
               = Some (activeTotal (splice1 i (orderItems vo) @ [orderItems vo ! i]))
           \<and> map_option order_total (viewingOrder st2) = Some (activeTotal (orderItems vo))
           \<and> (order_total vo = activeTotal (orderItems vo) \<longrightarrow>
                map_option order_total (viewingOrder st2) = Some (order_total vo)))"
proof -
  define item where "item = orderItems vo ! i"
  define vo1 where
    "vo1 = vo\<lparr>orderItems := splice1 i (orderItems vo),
              backorderedItems := Some (backordered vo @ [item]),
              order_total := activeTotal (splice1 i (orderItems vo))\<rparr>"
  define st1 where "st1 = handleToggleHoldInView e pid Hold st"
  define st2 where "st2 = handleToggleHoldInView e pid Unhold st1"
  from findIndex_Some [OF assms(2)]
  have i: "i < length (orderItems vo)" and pid: "productId item = pid"
    by (simp_all add: item_def)
  have v1: "viewingOrder st1 = Some vo1"
    unfolding st1_def hold_valid [OF assms(1,2)] viewingOrder_commitOrder
    by (simp add: vo1_def item_def newTotal_activeTotal)
  have b1: "backordered vo1 = backordered vo @ [item]"
    by (simp add: vo1_def backordered_def)
  have "\<forall>x \<in> set (backordered vo). \<not> productId x = pid"
    using assms(3) by auto
  then have idx: "findIndex (\<lambda>x. productId x = pid) (backordered vo1)
                    = Some (length (backordered vo))"
    unfolding b1 using pid by (rule findIndex_snoc)
  have stock: "getEffectiveStock e product \<noteq> 0"
    using assms(5) by simp
  have v2: "viewingOrder st2
              = Some (vo1\<lparr>backorderedItems := Some (backordered vo),
                          orderItems := splice1 i (orderItems vo) @ [item],
                          order_total := activeTotal (splice1 i (orderItems vo) @ [item])\<rparr>)"
    unfolding st2_def unhold_valid [OF v1 assms(4) stock idx] viewingOrder_commitOrder
    by (simp add: b1 splice1_snoc newTotal_activeTotal) (simp add: vo1_def)
  have tot: "activeTotal (splice1 i (orderItems vo) @ [item]) = activeTotal (orderItems vo)"
    unfolding item_def by (rule activeTotal_moved [OF i])
  show ?thesis
    unfolding Let_def st1_def [symmetric] st2_def [symmetric]
    by (simp add: v1 v2 b1 tot)
       (simp add: vo1_def backordered_def item_def tot [unfolded item_def])
qed

theorem hold_unhold_roundtrip_witness:
  "map_option orderItems
     (viewingOrder
        (handleToggleHoldInView scenarioEnv ''P1'' Unhold
           (handleToggleHoldInView scenarioEnv ''P1'' Hold view450))) = Some [lineP1]
   \<and> map_option order_total
     (viewingOrder
        (handleToggleHoldInView scenarioEnv ''P1'' Unhold
           (handleToggleHoldInView scenarioEnv ''P1'' Hold view450))) = Some 450"
proof -
  have v: "viewingOrder view450 = Some order450"
    by (simp add: view450_def)
  have i: "findIndex (\<lambda>item. productId item = ''P1'') (orderItems order450) = Some 0"
    by (simp add: order450_def lineP1_def)
  have b: "''P1'' \<notin> productId ` set (backordered order450)"
    by (simp add: order450_def backordered_def)
  have f: "findProduct scenarioEnv ''P1''
             = Some \<lparr>product_id = ''P1'', product_name = ''Tea'', product_price = 100,
                     stock = 10\<rparr>"
    by (simp add: scenarioEnv_def findProduct_def)
  have s: "getEffectiveStock scenarioEnv
             \<lparr>product_id = ''P1'', product_name = ''Tea'', product_price = 100, stock = 10\<rparr>
             > 0"
    by (simp add: scenarioEnv_def getEffectiveStock_def isDriver_def)
  have t: "order_total order450 = activeTotal (orderItems order450)"
    by (simp add: order450_def lineP1_def activeTotal_def orZero_def)
  show ?thesis
    using hold_unhold_roundtrip [OF v i b f s] t
    by (simp add: Let_def splice1_def order450_def)
qed




section \<open>Finalization: proofs\<close>

lemma firstInsufficient_find:
  "firstInsufficient e items = find (\<lambda>x. \<not> lineSufficient e x) items"
  by (induction items) (auto simp: lineSufficient_def split: option.splits)

lemma soldQty_foldl: "foldl (\<lambda>sum i. sum + quantity i) a items = a + sum_list (map quantity items)"
  by (induction items arbitrary: a) simp_all

lemma soldQty_sum: "soldQty items = sum_list (map quantity items)"
  by (simp add: soldQty_def soldQty_foldl)

lemma deductStock_only_stock: "filter isProductStock (deductStock e items) = deductStock e items"
  by (induction items) (simp_all split: option.splits)

lemma target_cases:
  assumes "(case orderToProcess of Some x \<Rightarrow> Some x | None \<Rightarrow> orderToFinalize st)
             = Some targetOrder"
  shows "handleConfirmFinalize st orderToProcess =
           (if orderItems targetOrder = []
            then abortFinalize st orderToProcess EmptyOrderError
            else (case firstInsufficient (ctx st) (orderItems targetOrder) of
                    Some item \<Rightarrow>
                      abortFinalize st orderToProcess
                        (InsufficientStockError (alertName (ctx st) item))
                  | None \<Rightarrow> deliver st orderToProcess targetOrder))"
  using assms by (simp add: handleConfirmFinalize_def)

lemma finalized_iff:
  assumes "(case orderToProcess of Some x \<Rightarrow> Some x | None \<Rightarrow> orderToFinalize st)
             = Some targetOrder"
    and "outcome (handleConfirmFinalize st orderToProcess) = Finalized"
  shows "handleConfirmFinalize st orderToProcess = deliver st orderToProcess targetOrder"
    and "firstInsufficient (ctx st) (orderItems targetOrder) = None"
    and "orderItems targetOrder \<noteq> []"
  using assms(2) unfolding target_cases [OF assms(1)]
  by (auto simp: abortFinalize_def split: if_splits option.splits)

lemma writes_deliver_stock:
  "filter isProductStock (writes (deliver st orderToProcess targetOrder))
     = (if status targetOrder \<noteq> Delivered
        then deductStock (ctx st) (orderItems targetOrder) else [])"
  by (simp add: deliver_def Let_def customerTotals_def deductStock_only_stock
        split: option.splits)

lemma writes_abort: "writes (abortFinalize st orderToProcess err) = []"
  by (simp add: abortFinalize_def)

text \<open>
  C2. For every order passed to finalize, if some active line has effective stock
  strictly below its quantity, finalization aborts with an insufficient-stock error
  that names the first failing line's product (its catalogue name; the alert's
  \<open>an item\<close> stands in when that product is missing from the catalogue or has an empty
  name), and nothing is written: no backend write is issued, and the data context
  (product stock, allocations) and the order list with its statuses are unchanged.
\<close>

theorem finalize_insufficient_stock_aborts:
  assumes "(case orderToProcess of Some x \<Rightarrow> Some x | None \<Rightarrow> orderToFinalize st)
             = Some targetOrder"
    and "item \<in> set (orderItems targetOrder)"
    and "findProduct (ctx st) (productId item) = Some product"
    and "getEffectiveStock (ctx st) product < quantity item"
  shows "\<exists>failing.
           find (\<lambda>x. \<not> lineSufficient (ctx st) x) (orderItems targetOrder) = Some failing
           \<and> outcome (handleConfirmFinalize st orderToProcess)
               = Aborted (InsufficientStockError (alertName (ctx st) failing))
           \<and> (\<forall>p. findProduct (ctx st) (productId failing) = Some p \<and> product_name p \<noteq> []
                  \<longrightarrow> alertName (ctx st) failing = product_name p)
           \<and> writes (handleConfirmFinalize st orderToProcess) = []
           \<and> ctx (page (handleConfirmFinalize st orderToProcess)) = ctx st
           \<and> view (page (handleConfirmFinalize st orderToProcess)) = view st"
proof -
  have short: "\<not> lineSufficient (ctx st) item"
    using assms(3,4) by (simp add: lineSufficient_def)
  with assms(2) have "find (\<lambda>x. \<not> lineSufficient (ctx st) x) (orderItems targetOrder) \<noteq> None"
    by (auto simp: find_None_iff)
  then obtain failing
    where failing: "find (\<lambda>x. \<not> lineSufficient (ctx st) x) (orderItems targetOrder)
                      = Some failing"
    by blast
  from assms(2) have nonempty: "orderItems targetOrder \<noteq> []"
    by auto
  have result: "handleConfirmFinalize st orderToProcess
                  = abortFinalize st orderToProcess
                      (InsufficientStockError (alertName (ctx st) failing))"
    unfolding target_cases [OF assms(1)]
    using nonempty failing by (simp add: firstInsufficient_find)
  have name: "alertName (ctx st) failing = product_name p"
    if "findProduct (ctx st) (productId failing) = Some p \<and> product_name p \<noteq> []" for p
    using that by (simp add: alertName_def)
  show ?thesis
    unfolding result using failing name
    by (intro exI [of _ failing]) (simp add: abortFinalize_def)
qed

theorem finalize_insufficient_stock_aborts_witness:
  "outcome (handleConfirmFinalize lowStockPage (Some order450))
     = Aborted (InsufficientStockError ''Tea'')
   \<and> writes (handleConfirmFinalize lowStockPage (Some order450)) = []
   \<and> page (handleConfirmFinalize lowStockPage (Some order450)) = lowStockPage"
proof -
  let ?p = "\<lparr>product_id = ''P1'', product_name = ''Tea'', product_price = 100, stock = 3\<rparr>"
  have t: "(case Some order450 of Some x \<Rightarrow> Some x | None \<Rightarrow> orderToFinalize lowStockPage)
             = Some order450"
    by simp
  have i: "lineP1 \<in> set (orderItems order450)"
    by (simp add: order450_def)
  have f: "findProduct (ctx lowStockPage) (productId lineP1) = Some ?p"
    by (simp add: lowStockPage_def scenarioEnv_def findProduct_def lineP1_def)
  have s: "getEffectiveStock (ctx lowStockPage) ?p < quantity lineP1"
    by (simp add: lowStockPage_def scenarioEnv_def getEffectiveStock_def isDriver_def
          lineP1_def)
  have l: "find (\<lambda>x. \<not> lineSufficient (ctx lowStockPage) x) (orderItems order450)
             = Some lineP1"
    using f s by (simp add: order450_def lineSufficient_def)
  have n: "alertName (ctx lowStockPage) lineP1 = ''Tea''"
    using f by (simp add: alertName_def)
  have p: "page (handleConfirmFinalize lowStockPage (Some order450)) = lowStockPage"
    using l by (simp add: handleConfirmFinalize_def abortFinalize_def firstInsufficient_find
          order450_def)
  from finalize_insufficient_stock_aborts [OF t i f s] l n p
  show ?thesis by auto
qed



lemma deductStock_all_lines:
  assumes "\<not> isDriver e" and "firstInsufficient e items = None"
  shows "list_all2 (lineDeduction e) items (deductStock e items)"
  using assms(2)
proof (induction items)
  case Nil
  show ?case by simp
next
  case (Cons item rest)
  from Cons.prems obtain product
    where product: "findProduct e (productId item) = Some product"
      and enough: "\<not> getEffectiveStock e product < quantity item"
      and rest: "firstInsufficient e rest = None"
    by (auto split: option.splits if_splits)
  from enough assms(1) have "stock product \<ge> quantity item"
    by (simp add: getEffectiveStock_def)
  with product Cons.IH [OF rest] show ?case
    by (simp add: lineDeduction_def)
qed

lemma viewingOrder_deliver:
  "viewingOrder (view (page (deliver st orderToProcess targetOrder)))
     = Some (targetOrder\<lparr>status := Delivered\<rparr>)"
  by (simp add: deliver_def Let_def)

lemma no_stock_write_when_delivered:
  assumes "(case orderToProcess of Some x \<Rightarrow> Some x | None \<Rightarrow> orderToFinalize st)
             = Some targetOrder"
    and "status targetOrder = Delivered"
  shows "filter isProductStock (writes (handleConfirmFinalize st orderToProcess)) = []"
  unfolding target_cases [OF assms(1)]
  using assms(2)
  by (simp add: writes_abort writes_deliver_stock split: option.splits)

lemma deductStock_covered:
  "list_all2 (lineDeduction e) (filter (warehouseCovers e) items) (deductStock e items)"
proof (induction items)
  case Nil
  show ?case by simp
next
  case (Cons item rest)
  show ?case
  proof (cases "findProduct e (productId item)")
    case None
    with Cons.IH show ?thesis
      by (simp add: warehouseCovers_def)
  next
    case (Some currentProduct)
    with Cons.IH show ?thesis
      by (simp add: warehouseCovers_def lineDeduction_def)
  qed
qed

lemma all_lines_covered:
  assumes "\<not> isDriver e" and "firstInsufficient e items = None"
  shows "filter (warehouseCovers e) items = items"
  using assms(2)
proof (induction items)
  case Nil
  show ?case by simp
next
  case (Cons item rest)
  from Cons.prems obtain product
    where product: "findProduct e (productId item) = Some product"
      and enough: "\<not> getEffectiveStock e product < quantity item"
      and rest: "firstInsufficient e rest = None"
    by (auto split: option.splits if_splits)
  from enough assms(1) have "stock product \<ge> quantity item"
    by (simp add: getEffectiveStock_def)
  with product Cons.IH [OF rest] show ?case
    by (simp add: warehouseCovers_def)
qed

text \<open>
  C3 as stated fails: two calls of finalize need not deduct a line's quantity once. A
  driver whose allocation holds 7 of P1 while the warehouse holds 2 finalizes the
  pending order of 5 of P1: the stock check, against the allocation, passes and the
  order is delivered, but the deduction loop, against the warehouse stock, skips the
  line. Neither the first call nor a second call on the delivered order writes any
  product stock.
\<close>

theorem finalize_driver_no_deduction_counterexample:
  "status order450 = Pending
   \<and> map quantity (orderItems order450) = [5]
   \<and> outcome (handleConfirmFinalize shortWarehousePage (Some order450)) = Finalized
   \<and> viewingOrder (view (page (handleConfirmFinalize shortWarehousePage (Some order450))))
       = Some (order450\<lparr>status := Delivered\<rparr>)
   \<and> filter isProductStock
       (writes (handleConfirmFinalize shortWarehousePage (Some order450))
          @ writes (handleConfirmFinalize
                      (page (handleConfirmFinalize shortWarehousePage (Some order450)))
                      (Some (order450\<lparr>status := Delivered\<rparr>))))
       = []"
proof -
  let ?p = "\<lparr>product_id = ''P1'', product_name = ''Tea'', product_price = 100, stock = 2\<rparr>"
  have dr: "isDriver (ctx shortWarehousePage)"
    by (simp add: shortWarehousePage_def isDriver_def)
  have f: "findProduct (ctx shortWarehousePage) ''P1'' = Some ?p"
    by (simp add: shortWarehousePage_def findProduct_def)
  have s: "getEffectiveStock (ctx shortWarehousePage) ?p = 7"
    using dr by (simp add: getEffectiveStock_def getDriverAllocatedStock_def
          todaysAllocation_def shortWarehousePage_def)
  have c: "firstInsufficient (ctx shortWarehousePage) (orderItems order450) = None"
    by (simp add: order450_def lineP1_def f s)
  have r1: "handleConfirmFinalize shortWarehousePage (Some order450)
              = deliver shortWarehousePage (Some order450) order450"
    using c by (simp add: handleConfirmFinalize_def) (simp add: order450_def)
  have d: "deductStock (ctx shortWarehousePage) (orderItems order450) = []"
    by (simp add: order450_def lineP1_def f)
  have w1: "filter isProductStock
              (writes (handleConfirmFinalize shortWarehousePage (Some order450))) = []"
    unfolding r1 writes_deliver_stock by (simp add: d)
  have w2: "filter isProductStock
              (writes (handleConfirmFinalize
                         (page (handleConfirmFinalize shortWarehousePage (Some order450)))
                         (Some (order450\<lparr>status := Delivered\<rparr>)))) = []"
  proof (rule no_stock_write_when_delivered)
    show "(case Some (order450\<lparr>status := Delivered\<rparr>) of
             Some x \<Rightarrow> Some x
           | None \<Rightarrow>
               orderToFinalize
                 (page (handleConfirmFinalize shortWarehousePage (Some order450))))
            = Some (order450\<lparr>status := Delivered\<rparr>)"
      by simp
    show "status (order450\<lparr>status := Delivered\<rparr>) = Delivered"
      by simp
  qed
  have fin: "outcome (handleConfirmFinalize shortWarehousePage (Some order450)) = Finalized"
    unfolding r1 by (simp add: deliver_def Let_def)
  have v: "viewingOrder (view (page (handleConfirmFinalize shortWarehousePage (Some order450))))
             = Some (order450\<lparr>status := Delivered\<rparr>)"
    unfolding r1 by (rule viewingOrder_deliver)
  have o: "status order450 = Pending" "map quantity (orderItems order450) = [5]"
    by (simp_all add: order450_def lineP1_def)
  from o fin v w1 w2 show ?thesis by simp
qed

text \<open>
  C3, amended. Finalize is idempotent with respect to warehouse inventory: a call on an
  order that is already Delivered issues no product-stock write (the deduction loop is
  guarded by the order's status before the call). A call that finalizes an order leaves
  it in the view with status Delivered, so a second call on that order, in whatever
  page state, adds no stock write to those of the first call: calling finalize twice
  deducts each line's quantity at most once. The first call on an order that was not
  Delivered writes, in the order of the lines, exactly one deduction (the product's
  stock less the line's quantity) for each line whose product is in the catalogue with
  warehouse stock at least the quantity, and none for the other lines; for a user who
  is not a driver every line is such a line, so each line's quantity is deducted
  exactly once.
\<close>

theorem finalize_stock_at_most_once:
  "(status ord = Delivered \<longrightarrow>
      filter isProductStock (writes (handleConfirmFinalize st (Some ord))) = [])
   \<and> (outcome (handleConfirmFinalize st (Some ord)) = Finalized \<longrightarrow>
        viewingOrder (view (page (handleConfirmFinalize st (Some ord))))
          = Some (ord\<lparr>status := Delivered\<rparr>)
        \<and> (\<forall>st2. filter isProductStock
                    (writes (handleConfirmFinalize st (Some ord))
                       @ writes (handleConfirmFinalize st2 (Some (ord\<lparr>status := Delivered\<rparr>))))
                  = filter isProductStock (writes (handleConfirmFinalize st (Some ord))))
        \<and> (status ord \<noteq> Delivered \<longrightarrow>
             list_all2 (lineDeduction (ctx st))
               (filter (warehouseCovers (ctx st)) (orderItems ord))
               (filter isProductStock (writes (handleConfirmFinalize st (Some ord)))))
        \<and> (status ord \<noteq> Delivered \<and> \<not> isDriver (ctx st) \<longrightarrow>
             filter (warehouseCovers (ctx st)) (orderItems ord) = orderItems ord
             \<and> list_all2 (lineDeduction (ctx st)) (orderItems ord)
                 (filter isProductStock (writes (handleConfirmFinalize st (Some ord))))))"
proof (intro conjI impI allI)
  have target: "(case Some x of Some x \<Rightarrow> Some x | None \<Rightarrow> orderToFinalize s) = Some x"
    for x :: Order and s :: PageState
    by simp
  show "filter isProductStock (writes (handleConfirmFinalize st (Some ord))) = []"
    if "status ord = Delivered"
    using no_stock_write_when_delivered [OF target that] .
  assume fin: "outcome (handleConfirmFinalize st (Some ord)) = Finalized"
  note r1 = finalized_iff [OF target fin]
  show "viewingOrder (view (page (handleConfirmFinalize st (Some ord))))
          = Some (ord\<lparr>status := Delivered\<rparr>)"
    unfolding r1(1) by (rule viewingOrder_deliver)
  show "filter isProductStock
          (writes (handleConfirmFinalize st (Some ord))
             @ writes (handleConfirmFinalize st2 (Some (ord\<lparr>status := Delivered\<rparr>))))
        = filter isProductStock (writes (handleConfirmFinalize st (Some ord)))" for st2
  proof -
    have "filter isProductStock
            (writes (handleConfirmFinalize st2 (Some (ord\<lparr>status := Delivered\<rparr>)))) = []"
      by (rule no_stock_write_when_delivered [OF target]) simp
    then show ?thesis by simp
  qed
  show "list_all2 (lineDeduction (ctx st))
          (filter (warehouseCovers (ctx st)) (orderItems ord))
          (filter isProductStock (writes (handleConfirmFinalize st (Some ord))))"
    if "status ord \<noteq> Delivered"
    unfolding r1(1) writes_deliver_stock
    using that deductStock_covered [of "ctx st" "orderItems ord"] by simp
  show "filter (warehouseCovers (ctx st)) (orderItems ord) = orderItems ord"
    if "status ord \<noteq> Delivered \<and> \<not> isDriver (ctx st)"
    using that all_lines_covered [OF _ r1(2)] by simp
  show "list_all2 (lineDeduction (ctx st)) (orderItems ord)
          (filter isProductStock (writes (handleConfirmFinalize st (Some ord))))"
    if "status ord \<noteq> Delivered \<and> \<not> isDriver (ctx st)"
    unfolding r1(1) writes_deliver_stock
    using that deductStock_all_lines [OF _ r1(2)] by simp
qed

theorem finalize_stock_at_most_once_witness:
  "outcome (handleConfirmFinalize stockedPage (Some order450)) = Finalized
   \<and> filter isProductStock (writes (handleConfirmFinalize stockedPage (Some order450)))
       = [ProductStock ''P1'' 5]
   \<and> filter isProductStock
       (writes (handleConfirmFinalize stockedPage (Some order450))
          @ writes (handleConfirmFinalize
                      (page (handleConfirmFinalize stockedPage (Some order450)))
                      (Some (order450\<lparr>status := Delivered\<rparr>))))
       = [ProductStock ''P1'' 5]"
proof -
  have f: "findProduct scenarioEnv ''P1''
             = Some \<lparr>product_id = ''P1'', product_name = ''Tea'', product_price = 100,
                     stock = 10\<rparr>"
    by (simp add: scenarioEnv_def findProduct_def)
  have s: "getEffectiveStock scenarioEnv
             \<lparr>product_id = ''P1'', product_name = ''Tea'', product_price = 100, stock = 10\<rparr>
             = 10"
    by (simp add: scenarioEnv_def getEffectiveStock_def isDriver_def)
  have c: "firstInsufficient (ctx stockedPage) (orderItems order450) = None"
    by (simp add: stockedPage_def order450_def lineP1_def f s)
  have fin: "outcome (handleConfirmFinalize stockedPage (Some order450)) = Finalized"
    using c by (simp add: handleConfirmFinalize_def deliver_def Let_def)
      (simp add: order450_def)
  have st: "status order450 \<noteq> Delivered"
    by (simp add: order450_def)
  have nd: "\<not> isDriver (ctx stockedPage)"
    by (simp add: stockedPage_def scenarioEnv_def isDriver_def)
  have items: "orderItems order450 = [lineP1]"
    by (simp add: order450_def)
  have ld: "lineDeduction (ctx stockedPage) lineP1 w = (w = ProductStock ''P1'' 5)" for w
    by (simp add: lineDeduction_def stockedPage_def lineP1_def f)
  from finalize_stock_at_most_once [of order450 stockedPage] fin st nd
  show ?thesis
    by (simp add: items ld list_all2_Cons1)
qed

section \<open>Driver allocation: proofs\<close>

lemma find_deliveredQuantity:
  "map_option quantity (find (\<lambda>di. productId di = pid) deliveredItems)
     = deliveredQuantity deliveredItems pid"
  by (induction deliveredItems) (auto simp: deliveredQuantity_def)

lemma updatedAllocatedItems_spec:
  "updatedAllocatedItems deliveredItems allocated = specAllocatedItems deliveredItems allocated"
proof (induction allocated)
  case Nil
  show ?case by (simp add: updatedAllocatedItems_def)
next
  case (Cons entry rest)
  have step: "updatedAllocatedItems deliveredItems (entry # rest)
                = filter (\<lambda>item. alloc_quantity item > 0)
                    [case find (\<lambda>di. productId di = alloc_productId entry) deliveredItems of
                       Some delivered \<Rightarrow>
                         entry\<lparr>alloc_quantity :=
                                 (if alloc_quantity entry - quantity delivered > 0
                                  then alloc_quantity entry - quantity delivered else 0)\<rparr>
                     | None \<Rightarrow> entry]
                  @ updatedAllocatedItems deliveredItems rest"
    by (simp add: updatedAllocatedItems_def Let_def split: option.splits)
  show ?case
  proof (cases "find (\<lambda>di. productId di = alloc_productId entry) deliveredItems")
    case None
    with find_deliveredQuantity [of "alloc_productId entry" deliveredItems]
    have "deliveredQuantity deliveredItems (alloc_productId entry) = None"
      by simp
    with None show ?thesis
      unfolding step Cons.IH by simp
  next
    case (Some delivered)
    with find_deliveredQuantity [of "alloc_productId entry" deliveredItems]
    have "deliveredQuantity deliveredItems (alloc_productId entry)
            = Some (quantity delivered)"
      by simp
    with Some show ?thesis
      unfolding step Cons.IH by (simp add: max_def)
  qed
qed

lemma specAllocatedItems_positive:
  "x \<in> set (specAllocatedItems deliveredItems allocated) \<Longrightarrow> alloc_quantity x > 0"
  by (induction allocated) (auto simp: Let_def split: if_splits)

lemma allocationToUpdate_driver:
  assumes "isDriver e" and "todaysAllocation e = Some allocation"
  shows "allocationToUpdate e = Some allocation"
proof -
  from assms(2) have "driverAllocations e \<noteq> []"
    by (auto simp: todaysAllocation_def split: option.splits)
  with assms show ?thesis
    by (simp add: allocationToUpdate_def)
qed

text \<open>
  C9. When finalize is invoked by a driver who has an allocation record for today and
  the finalization goes through, exactly one allocation write is issued, for that
  record: every allocated entry whose product is among the order's active lines has
  its quantity decreased by the delivered quantity, not below 0; only entries with a
  positive quantity remain; and the sales total is increased by the sum of the
  delivered quantities. The local allocation list is updated in the same way.
\<close>

theorem driver_allocation_updated:
  assumes "(case orderToProcess of Some x \<Rightarrow> Some x | None \<Rightarrow> orderToFinalize st)
             = Some targetOrder"
    and "isDriver (ctx st)"
    and "todaysAllocation (ctx st) = Some allocation"
    and "outcome (handleConfirmFinalize st orderToProcess) = Finalized"
  shows "filter isAllocationUpdate (writes (handleConfirmFinalize st orderToProcess))
           = [AllocationUpdate (allocation_id allocation)
                (orZero (salesTotal allocation)
                   + of_int (sum_list (map quantity (orderItems targetOrder))))
                (specAllocatedItems (orderItems targetOrder) (allocatedItems allocation))]
         \<and> driverAllocations (ctx (page (handleConfirmFinalize st orderToProcess)))
           = map (\<lambda>a. if allocation_id a = allocation_id allocation
                      then a\<lparr>salesTotal :=
                               Some (orZero (salesTotal allocation)
                                 + of_int (sum_list (map quantity (orderItems targetOrder)))),
                             allocatedItems :=
                               specAllocatedItems (orderItems targetOrder)
                                 (allocatedItems allocation)\<rparr>
                      else a)
               (driverAllocations (ctx st))
         \<and> (\<forall>x \<in> set (specAllocatedItems (orderItems targetOrder)
                          (allocatedItems allocation)). alloc_quantity x > 0)"
proof -
  note r = finalized_iff(1) [OF assms(1,4)]
  note a = allocationToUpdate_driver [OF assms(2,3)]
  have w: "filter isAllocationUpdate (writes (deliver st orderToProcess targetOrder))
             = [AllocationUpdate (allocation_id allocation)
                  (orZero (salesTotal allocation)
                     + of_int (sum_list (map quantity (orderItems targetOrder))))
                  (specAllocatedItems (orderItems targetOrder) (allocatedItems allocation))]"
  proof -
    have "filter isAllocationUpdate (deductStock e items) = []" for e items
      by (induction items) (simp_all split: option.splits)
    then show ?thesis
      by (simp add: deliver_def Let_def a customerTotals_def soldQty_sum
            updatedAllocatedItems_spec)
  qed
  have d: "driverAllocations (ctx (page (deliver st orderToProcess targetOrder)))
             = map (\<lambda>a. if allocation_id a = allocation_id allocation
                        then a\<lparr>salesTotal :=
                                 Some (orZero (salesTotal allocation)
                                   + of_int (sum_list (map quantity (orderItems targetOrder)))),
                               allocatedItems :=
                                 specAllocatedItems (orderItems targetOrder)
                                   (allocatedItems allocation)\<rparr>
                        else a)
                 (driverAllocations (ctx st))"
    by (simp add: deliver_def Let_def a soldQty_sum updatedAllocatedItems_spec)
  show ?thesis
    unfolding r using w d specAllocatedItems_positive by blast
qed

theorem driver_allocation_updated_witness:
  "filter isAllocationUpdate (writes (handleConfirmFinalize driverPage (Some order450)))
     = [AllocationUpdate ''A1'' 12 [\<lparr>alloc_productId = ''P2'', alloc_quantity = 4\<rparr>]]
   \<and> driverAllocations (ctx (page (handleConfirmFinalize driverPage (Some order450))))
     = [driverAllocation\<lparr>salesTotal := Some 12,
          allocatedItems := [\<lparr>alloc_productId = ''P2'', alloc_quantity = 4\<rparr>]\<rparr>]"
proof -
  have t: "(case Some order450 of Some x \<Rightarrow> Some x | None \<Rightarrow> orderToFinalize driverPage)
             = Some order450"
    by simp
  have dr: "isDriver (ctx driverPage)"
    by (simp add: driverPage_def scenarioEnv_def isDriver_def)
  have al: "todaysAllocation (ctx driverPage) = Some driverAllocation"
    by (simp add: driverPage_def scenarioEnv_def todaysAllocation_def driverAllocation_def)
  have f: "findProduct (ctx driverPage) ''P1''
             = Some \<lparr>product_id = ''P1'', product_name = ''Tea'', product_price = 100,
                     stock = 10\<rparr>"
    by (simp add: driverPage_def scenarioEnv_def findProduct_def)
  have s: "getEffectiveStock (ctx driverPage)
             \<lparr>product_id = ''P1'', product_name = ''Tea'', product_price = 100, stock = 10\<rparr>
             = 5"
    using dr al by (simp add: getEffectiveStock_def getDriverAllocatedStock_def
          driverAllocation_def)
  have c: "firstInsufficient (ctx driverPage) (orderItems order450) = None"
    by (simp add: order450_def lineP1_def f s)
  have fin: "outcome (handleConfirmFinalize driverPage (Some order450)) = Finalized"
    using c by (simp add: handleConfirmFinalize_def deliver_def Let_def)
      (simp add: order450_def)
  have sp: "specAllocatedItems (orderItems order450) (allocatedItems driverAllocation)
              = [\<lparr>alloc_productId = ''P2'', alloc_quantity = 4\<rparr>]"
    by (simp add: order450_def lineP1_def driverAllocation_def
          deliveredQuantity_def Let_def)
  have q: "sum_list (map quantity (orderItems order450)) = 5"
    by (simp add: order450_def lineP1_def)
  have ds: "driverAllocations (ctx driverPage) = [driverAllocation]"
    by (simp add: driverPage_def scenarioEnv_def)
  from driver_allocation_updated [OF t dr al fin]
  show ?thesis
    by (simp add: sp q ds) (simp add: driverAllocation_def orZero_def)
qed



section \<open>Saving an order: proofs\<close>

lemma saveStep_backordered:
  assumes "snd entry > 0" and "\<not> lineActive e held entry"
  shows "fst (saveStep e prices discounts held acc entry) = fst acc"
proof -
  obtain pid qty where entry: "entry = (pid, qty)" by (cases entry)
  show ?thesis
  proof (cases "findProduct e pid")
    case None
    then show ?thesis
      by (simp add: saveStep_def entry)
  next
    case (Some product)
    with assms have "pid \<in> held \<or> getEffectiveStock e product = 0"
      by (auto simp: lineActive_def entry)
    with Some show ?thesis
      by (auto simp: saveStep_def Let_def entry)
  qed
qed

lemma saveLists_foldl_backordered:
  assumes "\<forall>entry \<in> set entries. snd entry > 0 \<and> \<not> lineActive e held entry"
  shows "fst (foldl (saveStep e prices discounts held) acc entries) = fst acc"
  using assms
proof (induction entries arbitrary: acc)
  case Nil
  show ?case by simp
next
  case (Cons entry rest)
  then have "fst (foldl (saveStep e prices discounts held)
                    (saveStep e prices discounts held acc entry) rest)
               = fst (saveStep e prices discounts held acc entry)"
    by simp
  also have "\<dots> = fst acc"
    using Cons.prems by (simp add: saveStep_backordered)
  finally show ?case by simp
qed

lemma no_active_line_no_order_item:
  assumes "\<forall>entry \<in> set quantities. \<not> lineActive e held entry"
  shows "fst (saveLists e quantities prices discounts held) = []"
proof -
  have "\<forall>entry \<in> set (filter (\<lambda>entry. snd entry > 0) quantities).
           snd entry > 0 \<and> \<not> lineActive e held entry"
    using assms by simp
  from saveLists_foldl_backordered [OF this, of prices discounts "([], [])"]
  show ?thesis by (simp add: saveLists_def)
qed

lemma no_active_line_no_stock_item:
  assumes "\<forall>entry \<in> set quantities. \<not> lineActive e held entry"
  shows "inStockItems (orderTotals e quantities prices discounts held) = 0"
proof -
  from assms have "filter (lineActive e held) quantities = []"
    by (simp add: filter_empty_conv)
  then show ?thesis
    by (simp add: orderTotals_def totalsStep_foldl)
qed

text \<open>
  C10. When a new order is saved (create mode) and every selected line with a positive
  quantity is held or has effective stock 0 (no line is active), no order is inserted,
  whatever else the form holds. The in-stock count is then 0; when a customer is
  selected and in the customer list and the held count is positive, the initial guard
  lets the call through and the save ends in the validation message of the empty-items
  check.
\<close>

theorem create_backorder_only_rejected:
  assumes "modalState form = Create"
    and "\<forall>entry \<in> set (orderItemQuantities form). \<not> lineActive e (heldItems form) entry"
  shows "(\<forall>anyId row. handleSaveOrder e customers form newId \<noteq> InsertOrder anyId row)
       \<and> inStockItems (orderTotals e (orderItemQuantities form) (orderItemPrices form)
            (orderDiscounts form) (heldItems form)) = 0
       \<and> (selectedCustomer form \<noteq> []
            \<and> find (\<lambda>c. customer_id c = selectedCustomer form) customers = Some customer
            \<and> heldItemsCount (orderTotals e (orderItemQuantities form) (orderItemPrices form)
                 (orderDiscounts form) (heldItems form)) > 0
          \<longrightarrow> handleSaveOrder e customers form newId
                = SaveAlert ''Please add at least one item to the order'')"
proof -
  note empty = no_active_line_no_order_item [OF assms(2)]
  have no_insert: "handleSaveOrder e customers form newId \<noteq> InsertOrder anyId row"
    for anyId row
    using assms(1) empty
    by (simp add: handleSaveOrder_def Let_def split: option.splits)
  have guard_passed: "handleSaveOrder e customers form newId
                        = SaveAlert ''Please add at least one item to the order''"
    if "selectedCustomer form \<noteq> []
          \<and> find (\<lambda>c. customer_id c = selectedCustomer form) customers = Some customer
          \<and> heldItemsCount (orderTotals e (orderItemQuantities form) (orderItemPrices form)
               (orderDiscounts form) (heldItems form)) > 0"
  proof -
    from that have "customer_id customer = selectedCustomer form"
      by (auto dest: find_Some_iff [THEN iffD1])
    with that assms(1) empty show ?thesis
      by (simp add: handleSaveOrder_def Let_def)
  qed
  from no_insert guard_passed no_active_line_no_stock_item [OF assms(2)]
  show ?thesis by blast
qed

theorem create_backorder_only_rejected_witness:
  "heldItemsCount (orderTotals outOfStockEnv (orderItemQuantities backorderForm)
      (orderItemPrices backorderForm) (orderDiscounts backorderForm)
      (heldItems backorderForm)) = 5
   \<and> handleSaveOrder outOfStockEnv
       [\<lparr>customer_id = ''C1'', customer_name = ''Ann''\<rparr>] backorderForm ''ORD002''
       = SaveAlert ''Please add at least one item to the order''"
proof -
  have m: "modalState backorderForm = Create"
    by (simp add: backorderForm_def)
  have n: "\<forall>entry \<in> set (orderItemQuantities backorderForm).
             \<not> lineActive outOfStockEnv (heldItems backorderForm) entry"
    by (simp add: backorderForm_def lineActive_def outOfStockEnv_def findProduct_def
          getEffectiveStock_def isDriver_def)
  have h: "heldItemsCount (orderTotals outOfStockEnv (orderItemQuantities backorderForm)
             (orderItemPrices backorderForm) (orderDiscounts backorderForm)
             (heldItems backorderForm)) = 5"
    by (simp add: orderTotals_def totalsStep_def backorderForm_def outOfStockEnv_def
          findProduct_def getEffectiveStock_def isDriver_def Let_def)
  have c: "selectedCustomer backorderForm \<noteq> []
           \<and> find (\<lambda>c. customer_id c = selectedCustomer backorderForm)
               [\<lparr>customer_id = ''C1'', customer_name = ''Ann''\<rparr>]
             = Some \<lparr>customer_id = ''C1'', customer_name = ''Ann''\<rparr>"
    by (simp add: backorderForm_def)
  from create_backorder_only_rejected [OF m n,
      of "[\<lparr>customer_id = ''C1'', customer_name = ''Ann''\<rparr>]" "''ORD002''"
         "\<lparr>customer_id = ''C1'', customer_name = ''Ann''\<rparr>"] h c
  show ?thesis by simp
qed


end
